theory Spec2Isabelle
  imports Complex_Main "HOL-Library.Char_ord" "HOL-Library.List_Lexorder" "HOL-Library.Sublist"
begin

section \<open>Thronos BTC API adapter: the upstream resolution engine of \<open>main.py\<close>\<close>

text \<open>
  The module keeps two pieces of process-wide state (\<open>_cache\<close> and
  \<open>_last_request_time\<close>) and talks to three things outside it: the wall clock
  (\<open>time.time()\<close>), the event loop (\<open>asyncio.sleep\<close>) and the HTTP client.
  The embedding passes the state explicitly, as a record, and takes the outside world as
  a record of configuration values and oracles. One run of one coroutine is modelled:
  what other coroutines do between two \<open>await\<close>s is outside the model.

  Times are Python floats in the source; here they are real numbers, so rounding in
  \<open>now - ts\<close> and \<open>1.0 / RATE_LIMIT_RPS\<close> is not modelled.
\<close>

subsection \<open>Python values and exceptions\<close>

text \<open>
  A float is finite, an infinity or a NaN: \<open>json.loads\<close> produces all of them
  (\<open>1e999\<close>, \<open>Infinity\<close>, \<open>NaN\<close>).
\<close>

datatype pyfloat = Fin real | PosInf | NegInf | NaN

datatype pyval =
    PNone
  | PBool bool
  | PInt int
  | PFloat pyfloat
  | PStr string
  | PList "pyval list"
  | PDict "(string \<times> pyval) list"

datatype exn =
    HTTPException int string
  | TransportError string
  | JSONDecodeError
  | ValueError
  | TypeError
  | OverflowError

subsection \<open>The builtin \<open>int()\<close>\<close>

text \<open>
  \<open>int(x)\<close> on a string. A character here is a code point below 256; text with
  other code points is outside the model. Surrounding whitespace is skipped (the six
  ASCII whitespace characters, and of the code points from 128 on the two that are
  whitespace, U+0085 and U+00A0), one sign is allowed, then decimal digits follow, with
  single underscores between digits; no code point from 128 to 255 is a decimal digit.
  More digits than the interpreter's limit (\<open>sys.get_int_max_str_digits()\<close>, 4300
  unless configured; 0 switches the limit off) raise \<open>ValueError\<close>.
\<close>

definition is_space :: "char \<Rightarrow> bool" where
  "is_space c =
     (c \<in> set [CHR 0x09, CHR 0x0A, CHR 0x0B, CHR 0x0C, CHR 0x0D, CHR 0x20, CHR 0x85, CHR 0xA0])"

definition is_digit :: "char \<Rightarrow> bool" where
  "is_digit c = (c \<in> set ''0123456789'')"

definition digit_val :: "char \<Rightarrow> int" where
  "digit_val c = int (of_char c) - 48"

definition strip :: "string \<Rightarrow> string" where
  "strip s = rev (dropWhile is_space (rev (dropWhile is_space s)))"

fun scan_digits :: "char \<Rightarrow> nat \<Rightarrow> int \<Rightarrow> string \<Rightarrow> (nat \<times> int) option" where
  "scan_digits prev digits acc [] =
     (if prev = CHR ''_'' then None else Some (digits, acc))"
| "scan_digits prev digits acc (c # cs) =
     (if c = CHR ''_'' then
        (if prev = CHR ''_'' then None else scan_digits c digits acc cs)
      else if is_digit c then scan_digits c (Suc digits) (10 * acc + digit_val c) cs
      else None)"

definition split_sign :: "string \<Rightarrow> bool \<times> string" where
  "split_sign t =
     (case t of
        [] \<Rightarrow> (False, [])
      | c # cs \<Rightarrow>
          if c = CHR ''+'' then (False, cs)
          else if c = CHR ''-'' then (True, cs)
          else (False, t))"

definition int_of_str :: "nat \<Rightarrow> string \<Rightarrow> int option" where
  "int_of_str max_str_digits s =
     (case split_sign (strip s) of
        (neg, body) \<Rightarrow>
          if take 1 body = ''_'' then None
          else
            (case scan_digits (CHR 0x00) 0 0 body of
               None \<Rightarrow> None
             | Some (digits, v) \<Rightarrow>
                 if digits = 0 then None
                 else if digits > 640 \<and> max_str_digits > 0 \<and> digits > max_str_digits then None
                 else Some (if neg then - v else v)))"

text \<open>
  \<open>int(x)\<close> on any payload: a float is truncated towards zero, an infinity raises
  \<open>OverflowError\<close>, a NaN raises \<open>ValueError\<close>; \<open>None\<close>, lists and
  dicts raise \<open>TypeError\<close>.
\<close>

fun py_int :: "nat \<Rightarrow> pyval \<Rightarrow> exn + int" where
  "py_int m PNone = Inl TypeError"
| "py_int m (PBool b) = Inr (if b then 1 else 0)"
| "py_int m (PInt n) = Inr n"
| "py_int m (PFloat (Fin x)) = Inr (if 0 \<le> x then \<lfloor>x\<rfloor> else \<lceil>x\<rceil>)"
| "py_int m (PFloat PosInf) = Inl OverflowError"
| "py_int m (PFloat NegInf) = Inl OverflowError"
| "py_int m (PFloat NaN) = Inl ValueError"
| "py_int m (PStr s) = (case int_of_str m s of None \<Rightarrow> Inl ValueError | Some n \<Rightarrow> Inr n)"
| "py_int m (PList xs) = Inl TypeError"
| "py_int m (PDict kvs) = Inl TypeError"

subsection \<open>Configuration, environment and state\<close>

text \<open>
  A response of the HTTP client: \<open>resp.status_code\<close>, \<open>resp.headers\<close> (looked
  up by lower-case name) and \<open>resp.text\<close>. A call either raises or responds.
\<close>

record response =
  status_code :: int
  headers :: "string \<rightharpoonup> string"
  resp_text :: string

datatype outcome = Raises exn | Responds response

text \<open>
  The three module constants read from the process environment, and the outside world:
  \<open>client_get n url\<close> is what the \<open>n\<close>-th outbound call of the run gives
  when it asks for \<open>url\<close>, \<open>client_time n\<close> the seconds that call takes,
  \<open>json_loads\<close> the JSON parser behind \<open>resp.json()\<close> (\<open>None\<close>: it
  raises), \<open>int_max_str_digits\<close> the interpreter's digit limit.
\<close>

record env =
  UPSTREAMS :: "string list"
  CACHE_TTL :: int
  RATE_LIMIT_RPS :: real
  client_get :: "nat \<Rightarrow> string \<Rightarrow> outcome"
  client_time :: "nat \<Rightarrow> real"
  json_loads :: "string \<Rightarrow> pyval option"
  int_max_str_digits :: nat

text \<open>
  A cache key is \<open>(name, args, tuple(sorted(kwargs.items())))\<close>. The endpoints
  pass strings only, for which Python's \<open>==\<close> is equality of the text.
\<close>

type_synonym request_signature = "string \<times> string list \<times> (string \<times> string) list"

text \<open>
  \<open>cache\<close> is \<open>_cache\<close>, \<open>last_request_time\<close> is
  \<open>_last_request_time\<close>, \<open>clock\<close> is what \<open>time.time()\<close> returns
  now. \<open>calls\<close> lists the URLs requested so far and \<open>warnings\<close> the
  \<open>logger.warning\<close> records (URL and exception), oldest first.
\<close>

record state =
  cache :: "request_signature \<rightharpoonup> pyval \<times> real"
  last_request_time :: real
  clock :: real
  calls :: "string list"
  warnings :: "(string \<times> exn) list"

subsection \<open>\<open>_rate_limit\<close>\<close>

text \<open>\<open>await asyncio.sleep(d)\<close>: the coroutine resumes \<open>d\<close> seconds later.\<close>

definition sleep :: "real \<Rightarrow> state \<Rightarrow> state" where
  "sleep d s = s\<lparr>clock := clock s + d\<rparr>"

text \<open>
  In a run of one coroutine \<open>_rate_lock\<close> is free on entry and released on exit,
  so \<open>async with _rate_lock\<close> changes nothing that is modelled.
\<close>

definition rate_limit :: "env \<Rightarrow> state \<Rightarrow> state" where
  "rate_limit e s =
     (if RATE_LIMIT_RPS e \<le> 0 then s
      else
        (let now = clock s;
             min_interval = 1 / RATE_LIMIT_RPS e;
             wait_time = min_interval - (now - last_request_time s);
             s1 = (if wait_time > 0 then sleep wait_time s else s)
         in s1\<lparr>last_request_time := clock s1\<rparr>))"

subsection \<open>\<open>_fetch_from_upstreams\<close>\<close>

text \<open>\<open>await client.get(url, headers=headers)\<close> inside its \<open>async with\<close>.\<close>

definition http_get :: "env \<Rightarrow> string \<Rightarrow> state \<Rightarrow> outcome \<times> state" where
  "http_get e url s =
     (let n = length (calls s)
      in (client_get e n url,
          s\<lparr>clock := clock s + client_time e n, calls := calls s @ [url]\<rparr>))"

definition log_warning :: "string \<Rightarrow> exn \<Rightarrow> state \<Rightarrow> state" where
  "log_warning url exc s = s\<lparr>warnings := warnings s @ [(url, exc)]\<rparr>"

text \<open>
  The body of the \<open>for base in UPSTREAMS\<close> loop. \<open>Some data\<close> is
  \<open>return data\<close>; \<open>None\<close> is falling through to the next iteration, either
  past the \<open>if\<close> (a status other than 200) or through the handler of
  \<open>except Exception\<close>, which covers the transport call and \<open>resp.json()\<close>.
\<close>

definition try_upstream :: "env \<Rightarrow> string \<Rightarrow> string \<Rightarrow> state \<Rightarrow> pyval option \<times> state" where
  "try_upstream e path base s =
     (let url = base @ path;
          s1 = rate_limit e s
      in case http_get e url s1 of
           (Raises exc, s2) \<Rightarrow> (None, log_warning url exc s2)
         | (Responds resp, s2) \<Rightarrow>
             if status_code resp = 200 then
               (let content_type = (case headers resp ''content-type'' of
                                      None \<Rightarrow> '''' | Some v \<Rightarrow> v)
                in if sublist ''application/json'' content_type then
                     (case json_loads e (resp_text resp) of
                        Some data \<Rightarrow> (Some data, s2)
                      | None \<Rightarrow> (None, log_warning url JSONDecodeError s2))
                   else (Some (PStr (resp_text resp)), s2))
             else (None, s2))"

fun fetch_loop :: "env \<Rightarrow> string \<Rightarrow> string list \<Rightarrow> state \<Rightarrow> (exn + pyval) \<times> state" where
  "fetch_loop e path [] s = (Inl (HTTPException 502 ''All upstreams failed''), s)"
| "fetch_loop e path (base # rest) s =
     (case try_upstream e path base s of
        (Some data, s') \<Rightarrow> (Inr data, s')
      | (None, s') \<Rightarrow> fetch_loop e path rest s')"

definition fetch_from_upstreams :: "env \<Rightarrow> string \<Rightarrow> state \<Rightarrow> (exn + pyval) \<times> state" where
  "fetch_from_upstreams e path s = fetch_loop e path (UPSTREAMS e) s"

subsection \<open>\<open>_cache_key\<close> and \<open>_get_cached_or_fetch\<close>\<close>

text \<open>
  \<open>kwargs\<close> is a dict: its items have distinct keys, so \<open>sorted\<close> orders
  them by key and never compares two values.
\<close>

definition cache_key :: "string \<Rightarrow> string list \<Rightarrow> (string \<times> string) list \<Rightarrow> request_signature" where
  "cache_key name args kwargs = (name, args, sort_key fst kwargs)"

text \<open>
  The cache check of lines 122 to 125 (\<open>None\<close>: control reaches the fetch) and the
  assignment of line 128.
\<close>

definition cache_lookup ::
  "env \<Rightarrow> (request_signature \<rightharpoonup> pyval \<times> real) \<Rightarrow> request_signature \<Rightarrow> real \<Rightarrow> pyval option" where
  "cache_lookup e c key now =
     (case c key of
        None \<Rightarrow> None
      | Some (result, ts) \<Rightarrow> if now - ts < real_of_int (CACHE_TTL e) then Some result else None)"

definition cache_store ::
  "(request_signature \<rightharpoonup> pyval \<times> real) \<Rightarrow> request_signature \<Rightarrow> pyval \<Rightarrow> real
     \<Rightarrow> (request_signature \<rightharpoonup> pyval \<times> real)" where
  "cache_store c key result now = c(key \<mapsto> (result, now))"

type_synonym path_func =
  "string list \<Rightarrow> (string \<times> string) list \<Rightarrow> state \<Rightarrow> (exn + pyval) \<times> state"

definition get_cached_or_fetch ::
  "env \<Rightarrow> string \<Rightarrow> path_func \<Rightarrow> string list \<Rightarrow> (string \<times> string) list \<Rightarrow> state
     \<Rightarrow> (exn + pyval) \<times> state" where
  "get_cached_or_fetch e name path_func args kwargs s =
     (let key = cache_key name args kwargs;
          now = clock s
      in case cache_lookup e (cache s) key now of
           Some result \<Rightarrow> (Inr result, s)
         | None \<Rightarrow>
             (case path_func args kwargs s of
                (Inl exc, s1) \<Rightarrow> (Inl exc, s1)
              | (Inr result, s1) \<Rightarrow>
                  (Inr result, s1\<lparr>cache := cache_store (cache s1) key result now\<rparr>)))"

subsection \<open>The endpoints\<close>

text \<open>
  Each endpoint passes a closure \<open>fetch\<close> that builds the path and calls
  \<open>_fetch_from_upstreams\<close>. \<open>fetch0\<close> is the closure without parameters,
  \<open>fetch1 p pre post\<close> the closure with the one parameter \<open>p\<close>, whose
  path is \<open>pre\<close>, the argument, \<open>post\<close>; a call
  with other arguments raises \<open>TypeError\<close>.
\<close>

definition fetch0 :: "env \<Rightarrow> string \<Rightarrow> path_func" where
  "fetch0 e path args kwargs s =
     (if args = [] \<and> kwargs = [] then fetch_from_upstreams e path s
      else (Inl TypeError, s))"

definition fetch1 :: "env \<Rightarrow> string \<Rightarrow> string \<Rightarrow> string \<Rightarrow> path_func" where
  "fetch1 e p pre post args kwargs s =
     (case (args, kwargs) of
        ([x], []) \<Rightarrow> fetch_from_upstreams e (pre @ x @ post) s
      | ([], [(k, x)]) \<Rightarrow>
          if k = p then fetch_from_upstreams e (pre @ x @ post) s
          else (Inl TypeError, s)
      | _ \<Rightarrow> (Inl TypeError, s))"

definition get_tip_height :: "env \<Rightarrow> state \<Rightarrow> (exn + pyval) \<times> state" where
  "get_tip_height e s =
     (case get_cached_or_fetch e ''tip_height'' (fetch0 e ''/blocks/tip/height'') [] [] s of
        (Inl exc, s1) \<Rightarrow> (Inl exc, s1)
      | (Inr data, s1) \<Rightarrow>
          (case py_int (int_max_str_digits e) data of
             Inr n \<Rightarrow> (Inr (PInt n), s1)
           | Inl ValueError \<Rightarrow> (Inr data, s1)
           | Inl TypeError \<Rightarrow> (Inr data, s1)
           | Inl exc \<Rightarrow> (Inl exc, s1)))"

definition get_block_hash :: "env \<Rightarrow> string \<Rightarrow> state \<Rightarrow> (exn + pyval) \<times> state" where
  "get_block_hash e height s =
     get_cached_or_fetch e ''block_height'' (fetch1 e ''h'' ''/block-height/'' '''') [height] [] s"

definition get_block :: "env \<Rightarrow> string \<Rightarrow> state \<Rightarrow> (exn + pyval) \<times> state" where
  "get_block e block_hash s =
     get_cached_or_fetch e ''block'' (fetch1 e ''bh'' ''/block/'' '''') [block_hash] [] s"

definition get_transaction :: "env \<Rightarrow> string \<Rightarrow> state \<Rightarrow> (exn + pyval) \<times> state" where
  "get_transaction e txid s =
     get_cached_or_fetch e ''tx'' (fetch1 e ''t'' ''/tx/'' '''') [txid] [] s"

definition get_utxo :: "env \<Rightarrow> string \<Rightarrow> state \<Rightarrow> (exn + pyval) \<times> state" where
  "get_utxo e address s =
     get_cached_or_fetch e ''utxo'' (fetch1 e ''addr'' ''/address/'' ''/utxo'') [address] [] s"

definition get_address_txs :: "env \<Rightarrow> string \<Rightarrow> state \<Rightarrow> (exn + pyval) \<times> state" where
  "get_address_txs e address s =
     get_cached_or_fetch e ''address_txs'' (fetch1 e ''addr'' ''/address/'' ''/txs'') [address] [] s"

subsection \<open>Views of the code used in the statements\<close>

text \<open>
  What one outcome of the transport call is worth to the loop body: the payload it
  returns, or \<open>None\<close> when the loop goes on to the next upstream.
\<close>

definition payload_of :: "env \<Rightarrow> outcome \<Rightarrow> pyval option" where
  "payload_of e out =
     (case out of
        Raises exc \<Rightarrow> None
      | Responds resp \<Rightarrow>
          if status_code resp = 200 then
            (if sublist ''application/json''
                  (case headers resp ''content-type'' of None \<Rightarrow> '''' | Some v \<Rightarrow> v)
             then json_loads e (resp_text resp)
             else Some (PStr (resp_text resp)))
          else None)"

text \<open>A transport failure or a status other than 200.\<close>

definition failed :: "outcome \<Rightarrow> bool" where
  "failed out = (case out of Raises exc \<Rightarrow> True | Responds resp \<Rightarrow> status_code resp \<noteq> 200)"

text \<open>
  Lines 127 to 129 of \<open>_get_cached_or_fetch\<close>, reached when the cache check did not
  return: call \<open>path_func\<close>, store its result under \<open>key\<close> with the \<open>now\<close>
  read at line 120, return it. An exception of \<open>path_func\<close> passes through.
\<close>

definition fetch_and_store ::
  "env \<Rightarrow> request_signature \<Rightarrow> path_func \<Rightarrow> string list \<Rightarrow> (string \<times> string) list \<Rightarrow> state
     \<Rightarrow> (exn + pyval) \<times> state" where
  "fetch_and_store e key pf args kwargs s =
     (case pf args kwargs s of
        (Inl exc, s1) \<Rightarrow> (Inl exc, s1)
      | (Inr result, s1) \<Rightarrow>
          (Inr result, s1\<lparr>cache := cache_store (cache s1) key result (clock s)\<rparr>))"

subsection \<open>Example configurations\<close>

text \<open>
  The module as loaded (\<open>_cache = {}\<close>, \<open>_last_request_time = 0.0\<close>) at wall-clock
  time \<open>t\<close>, before any outbound call.
\<close>

definition initial_state :: "real \<Rightarrow> state" where
  "initial_state t =
     \<lparr>cache = Map.empty, last_request_time = 0, clock = t, calls = [], warnings = []\<rparr>"

definition http_response :: "int \<Rightarrow> string \<Rightarrow> string \<Rightarrow> response" where
  "http_response st ct body =
     \<lparr>status_code = st, headers = [''content-type'' \<mapsto> ct], resp_text = body\<rparr>"

text \<open>
  The JSON parser on the bodies the examples use; \<open>json.loads\<close> reads
  \<open>Infinity\<close> as the float infinity, and raises on an HTML page.
\<close>

definition demo_json_loads :: "string \<Rightarrow> pyval option" where
  \<open>demo_json_loads body =
     (if body = ''{"height": 800000}'' then Some (PDict [(''height'', PInt 800000)])
      else if body = ''Infinity'' then Some (PFloat PosInf)
      else None)\<close>

text \<open>
  Four upstreams: the first times out, the second answers 503, the third answers 200
  with a JSON body, the fourth would answer 200 with text.
\<close>

definition demo_env :: env where
  \<open>demo_env =
     \<lparr>UPSTREAMS = [''https://a.example/api'', ''https://b.example/api'',
                   ''https://c.example/api'', ''https://d.example/api''],
      CACHE_TTL = 30,
      RATE_LIMIT_RPS = 5,
      client_get = (\<lambda>n url.
         if prefix ''https://a.example'' url then Raises (TransportError ''ConnectTimeout'')
         else if prefix ''https://b.example'' url
           then Responds (http_response 503 ''text/plain'' ''busy'')
         else if prefix ''https://c.example'' url
           then Responds (http_response 200 ''application/json; charset=utf-8''
                            ''{"height": 800000}'')
         else Responds (http_response 200 ''text/plain'' ''799999'')),
      client_time = (\<lambda>n. 1 / 4),
      json_loads = demo_json_loads,
      int_max_str_digits = 4300\<rparr>\<close>

text \<open>
  Two upstreams: the first answers 200 and declares JSON, but sends an HTML page; the
  second answers 200 with text.
\<close>

definition bad_json_env :: env where
  "bad_json_env =
     \<lparr>UPSTREAMS = [''https://a.example/api'', ''https://b.example/api''],
      CACHE_TTL = 30,
      RATE_LIMIT_RPS = 5,
      client_get = (\<lambda>n url.
         if prefix ''https://a.example'' url
           then Responds (http_response 200 ''application/json'' ''<html>maintenance</html>'')
         else Responds (http_response 200 ''text/plain'' ''800000'')),
      client_time = (\<lambda>n. 1 / 4),
      json_loads = demo_json_loads,
      int_max_str_digits = 4300\<rparr>"

text \<open>Two upstreams, both down: the first times out, the second answers 503.\<close>

definition down_env :: env where
  "down_env =
     \<lparr>UPSTREAMS = [''https://a.example/api'', ''https://b.example/api''],
      CACHE_TTL = 30,
      RATE_LIMIT_RPS = 5,
      client_get = (\<lambda>n url.
         if prefix ''https://a.example'' url then Raises (TransportError ''ConnectTimeout'')
         else Responds (http_response 503 ''text/plain'' ''busy'')),
      client_time = (\<lambda>n. 1 / 4),
      json_loads = demo_json_loads,
      int_max_str_digits = 4300\<rparr>"

text \<open>One upstream that answers 200 with the given content type and body.\<close>

definition single_env :: "string \<Rightarrow> string \<Rightarrow> env" where
  "single_env ct body =
     \<lparr>UPSTREAMS = [''https://a.example/api''],
      CACHE_TTL = 30,
      RATE_LIMIT_RPS = 5,
      client_get = (\<lambda>n url. Responds (http_response 200 ct body)),
      client_time = (\<lambda>n. 1 / 4),
      json_loads = demo_json_loads,
      int_max_str_digits = 4300\<rparr>"

text \<open>
  A state whose cache holds one entry for the tip height, written at time 1000, read at
  time \<open>t\<close>.
\<close>

definition cached_state :: "real \<Rightarrow> state" where
  "cached_state t =
     \<lparr>cache = [cache_key ''tip_height'' [] [] \<mapsto> (PStr ''800000'', 1000)],
      last_request_time = 1000, clock = t, calls = [], warnings = []\<rparr>"

lemmas demo_defs = demo_env_def bad_json_env_def down_env_def single_env_def
  demo_json_loads_def http_response_def initial_state_def cached_state_def

lemmas run_defs = fetch_from_upstreams_def try_upstream_def http_get_def rate_limit_def
  sleep_def log_warning_def Let_def sublist_code(3)

lemmas cache_defs = get_cached_or_fetch_def cache_key_def cache_lookup_def cache_store_def
  fetch0_def fetch1_def

lemmas int_defs = int_of_str_def strip_def split_sign_def is_space_def is_digit_def
  digit_val_def

section \<open>Properties\<close>

subsection \<open>The rate gate, in a run of one coroutine\<close>

lemma rate_limit_disabled: "RATE_LIMIT_RPS e \<le> 0 \<Longrightarrow> rate_limit e s = s"
  by (simp add: rate_limit_def)

lemma rate_limit_calls: "calls (rate_limit e s) = calls s"
  by (simp add: rate_limit_def sleep_def Let_def)

lemma rate_limit_cache: "cache (rate_limit e s) = cache s"
  by (simp add: rate_limit_def sleep_def Let_def)

lemma rate_limit_clock: "clock s \<le> clock (rate_limit e s)"
  by (simp add: rate_limit_def sleep_def Let_def)

lemma rate_limit_spacing:
  "0 < RATE_LIMIT_RPS e \<Longrightarrow>
   last_request_time s + 1 / RATE_LIMIT_RPS e \<le> last_request_time (rate_limit e s)"
  by (simp add: rate_limit_def sleep_def Let_def)

subsection \<open>One iteration of the failover loop\<close>

lemma try_upstream_fst:
  "fst (try_upstream e path base s) = payload_of e (client_get e (length (calls s)) (base @ path))"
  by (simp add: try_upstream_def payload_of_def http_get_def rate_limit_calls Let_def
      split: outcome.splits option.splits)

lemma try_upstream_calls:
  "calls (snd (try_upstream e path base s)) = calls s @ [base @ path]"
  by (simp add: try_upstream_def http_get_def rate_limit_calls log_warning_def Let_def
      split: outcome.splits option.splits)

lemma try_upstream_cache:
  "cache (snd (try_upstream e path base s)) = cache s"
  by (simp add: try_upstream_def http_get_def rate_limit_cache log_warning_def Let_def
      split: outcome.splits option.splits)

lemma try_upstream_clock:
  "0 \<le> client_time e (length (calls s)) \<Longrightarrow> clock s \<le> clock (snd (try_upstream e path base s))"
  using rate_limit_clock [of s e]
  by (simp add: try_upstream_def http_get_def rate_limit_calls log_warning_def Let_def
      split: outcome.splits option.splits)

lemma failed_payload_of: "failed out \<Longrightarrow> payload_of e out = None"
  by (cases out) (simp_all add: failed_def payload_of_def)

subsection \<open>The failover loop\<close>

lemma fetch_loop_cache: "cache (snd (fetch_loop e path bs s)) = cache s"
proof (induction bs arbitrary: s)
  case Nil
  show ?case by simp
next
  case (Cons b bs)
  obtain r s' where t: "try_upstream e path b s = (r, s')"
    by (cases "try_upstream e path b s")
  have c: "cache s' = cache s"
    using try_upstream_cache [of e path b s] t by simp
  show ?case
  proof (cases r)
    case None
    with t c Cons.IH [of s'] show ?thesis by simp
  next
    case (Some p)
    with t c show ?thesis by simp
  qed
qed

lemma fetch_loop_clock:
  "\<forall>n. 0 \<le> client_time e n \<Longrightarrow> clock s \<le> clock (snd (fetch_loop e path bs s))"
proof (induction bs arbitrary: s)
  case Nil
  show ?case by simp
next
  case (Cons b bs)
  obtain r s' where t: "try_upstream e path b s = (r, s')"
    by (cases "try_upstream e path b s")
  from Cons.prems have "0 \<le> client_time e (length (calls s))" by simp
  from try_upstream_clock [OF this, of path b] t have c: "clock s \<le> clock s'" by simp
  show ?case
  proof (cases r)
    case None
    from Cons.IH [OF Cons.prems, of s'] c t None show ?thesis by simp
  next
    case (Some p)
    with t c show ?thesis by simp
  qed
qed

lemma fetch_loop_first_usable:
  assumes "i < length bs"
    and "\<forall>j<i. payload_of e (client_get e (length (calls s) + j) (bs ! j @ path)) = None"
    and "payload_of e (client_get e (length (calls s) + i) (bs ! i @ path)) = Some p"
  shows "fst (fetch_loop e path bs s) = Inr p \<and>
         calls (snd (fetch_loop e path bs s)) = calls s @ map (\<lambda>b. b @ path) (take (Suc i) bs)"
  using assms
proof (induction bs arbitrary: s i)
  case Nil
  then show ?case by simp
next
  case (Cons b bs)
  obtain r s' where t: "try_upstream e path b s = (r, s')"
    by (cases "try_upstream e path b s")
  have r: "r = payload_of e (client_get e (length (calls s)) (b @ path))"
    using try_upstream_fst [of e path b s] t by simp
  have c: "calls s' = calls s @ [b @ path]"
    using try_upstream_calls [of e path b s] t by simp
  show ?case
  proof (cases i)
    case 0
    with Cons.prems(3) r have "r = Some p" by simp
    with t c 0 show ?thesis by simp
  next
    case (Suc k)
    from Cons.prems(2) Suc r have rn: "r = None" by auto
    from Cons.prems(1) Suc have k: "k < length bs" by simp
    have prev: "\<forall>j<k. payload_of e (client_get e (length (calls s') + j) (bs ! j @ path)) = None"
    proof (intro allI impI)
      fix j assume "j < k"
      then have "Suc j < i" using Suc by simp
      with Cons.prems(2)
      have "payload_of e (client_get e (length (calls s) + Suc j) ((b # bs) ! Suc j @ path)) = None"
        by blast
      then show "payload_of e (client_get e (length (calls s') + j) (bs ! j @ path)) = None"
        using c by simp
    qed
    have here: "payload_of e (client_get e (length (calls s') + k) (bs ! k @ path)) = Some p"
      using Cons.prems(3) Suc c by simp
    from Cons.IH [OF k prev here] t rn c Suc show ?thesis by simp
  qed
qed

lemma fetch_loop_all_unusable:
  assumes "\<forall>j<length bs. payload_of e (client_get e (length (calls s) + j) (bs ! j @ path)) = None"
  shows "fst (fetch_loop e path bs s) = Inl (HTTPException 502 ''All upstreams failed'') \<and>
         calls (snd (fetch_loop e path bs s)) = calls s @ map (\<lambda>b. b @ path) bs"
  using assms
proof (induction bs arbitrary: s)
  case Nil
  then show ?case by simp
next
  case (Cons b bs)
  obtain r s' where t: "try_upstream e path b s = (r, s')"
    by (cases "try_upstream e path b s")
  have r: "r = payload_of e (client_get e (length (calls s)) (b @ path))"
    using try_upstream_fst [of e path b s] t by simp
  have c: "calls s' = calls s @ [b @ path]"
    using try_upstream_calls [of e path b s] t by simp
  from Cons.prems r have rn: "r = None" by auto
  have rest: "\<forall>j<length bs. payload_of e (client_get e (length (calls s') + j) (bs ! j @ path)) = None"
  proof (intro allI impI)
    fix j assume "j < length bs"
    then have "Suc j < length (b # bs)" by simp
    with Cons.prems
    have "payload_of e (client_get e (length (calls s) + Suc j) ((b # bs) ! Suc j @ path)) = None"
      by blast
    then show "payload_of e (client_get e (length (calls s') + j) (bs ! j @ path)) = None"
      using c by simp
  qed
  from Cons.IH [OF rest] t rn c show ?case by simp
qed

lemma fetch_loop_error:
  "fst (fetch_loop e path bs s) = Inl exc \<Longrightarrow> exc = HTTPException 502 ''All upstreams failed''"
proof (induction bs arbitrary: s)
  case Nil
  then show ?case by simp
next
  case (Cons b bs)
  obtain r s' where t: "try_upstream e path b s = (r, s')"
    by (cases "try_upstream e path b s")
  show ?case
  proof (cases r)
    case None
    with t Cons.prems have "fst (fetch_loop e path bs s') = Inl exc" by simp
    then show ?thesis by (rule Cons.IH)
  next
    case (Some p)
    with t Cons.prems show ?thesis by simp
  qed
qed

lemma fetch_loop_calls_extend:
  "\<exists>more. calls (snd (fetch_loop e path bs s)) = calls s @ more"
proof (induction bs arbitrary: s)
  case Nil
  show ?case by simp
next
  case (Cons b bs)
  obtain r s' where t: "try_upstream e path b s = (r, s')"
    by (cases "try_upstream e path b s")
  have c: "calls s' = calls s @ [b @ path]"
    using try_upstream_calls [of e path b s] t by simp
  show ?case
  proof (cases r)
    case None
    from Cons.IH [of s'] obtain more where "calls (snd (fetch_loop e path bs s')) = calls s' @ more"
      by blast
    with t c None show ?thesis by simp
  next
    case (Some p)
    with t c show ?thesis by simp
  qed
qed

lemma fetch_loop_calls_Cons:
  "\<exists>more. calls (snd (fetch_loop e path (b # bs) s)) = calls s @ [b @ path] @ more"
proof -
  obtain r s' where t: "try_upstream e path b s = (r, s')"
    by (cases "try_upstream e path b s")
  have c: "calls s' = calls s @ [b @ path]"
    using try_upstream_calls [of e path b s] t by simp
  show ?thesis
  proof (cases r)
    case None
    from fetch_loop_calls_extend [of e path bs s']
    obtain more where "calls (snd (fetch_loop e path bs s')) = calls s' @ more"
      by blast
    with t c None show ?thesis by simp
  next
    case (Some p)
    with t c show ?thesis by simp
  qed
qed

subsection \<open>The closures and the cache\<close>

lemma fetch0_cache: "cache (snd (fetch0 e path args kwargs s)) = cache s"
  by (simp add: fetch0_def fetch_from_upstreams_def fetch_loop_cache)

lemma fetch1_cache: "cache (snd (fetch1 e p pre post args kwargs s)) = cache s"
  by (simp add: fetch1_def fetch_from_upstreams_def fetch_loop_cache
      split: list.splits prod.splits)

lemma fetch0_clock:
  "\<forall>n. 0 \<le> client_time e n \<Longrightarrow> clock s \<le> clock (snd (fetch0 e path args kwargs s))"
  by (simp add: fetch0_def fetch_from_upstreams_def fetch_loop_clock)

lemma fetch1_clock:
  "\<forall>n. 0 \<le> client_time e n \<Longrightarrow> clock s \<le> clock (snd (fetch1 e p pre post args kwargs s))"
  by (simp add: fetch1_def fetch_from_upstreams_def fetch_loop_clock
      split: list.splits prod.splits)

lemma get_cached_or_fetch_hit:
  "cache_lookup e (cache s) (cache_key name args kwargs) (clock s) = Some v \<Longrightarrow>
   get_cached_or_fetch e name pf args kwargs s = (Inr v, s)"
  by (simp add: get_cached_or_fetch_def Let_def)

lemma get_cached_or_fetch_miss:
  "cache_lookup e (cache s) (cache_key name args kwargs) (clock s) = None \<Longrightarrow>
   get_cached_or_fetch e name pf args kwargs s
     = fetch_and_store e (cache_key name args kwargs) pf args kwargs s"
  by (simp add: get_cached_or_fetch_def fetch_and_store_def Let_def)

lemma cache_lookup_store_same:
  "cache_lookup e (cache_store c sg v t0) sg t
     = (if t - t0 < real_of_int (CACHE_TTL e) then Some v else None)"
  by (simp add: cache_lookup_def cache_store_def)

lemma cache_lookup_stale:
  "c sg = Some (v, t0) \<Longrightarrow> \<not> t - t0 < real_of_int (CACHE_TTL e) \<Longrightarrow> cache_lookup e c sg t = None"
  by (simp add: cache_lookup_def)

lemma cache_lookup_absent: "c sg = None \<Longrightarrow> cache_lookup e c sg t = None"
  by (simp add: cache_lookup_def)

text \<open>
  Two dicts with the same items give the same normalised keyword arguments, whatever
  the order in which the items were inserted.
\<close>

lemma sort_key_dict_unique:
  fixes k k' :: "(string \<times> string) list"
  assumes "distinct (map fst k)" and "distinct (map fst k')"
  shows "sort_key fst k = sort_key fst k' \<longleftrightarrow> set k = set k'"
proof
  assume "sort_key fst k = sort_key fst k'"
  then have "set (sort_key fst k) = set (sort_key fst k')" by simp
  then show "set k = set k'" by simp
next
  assume s: "set k = set k'"
  have inj: "inj_on fst (set k)"
    using assms(1) by (simp add: distinct_map)
  show "sort_key fst k = sort_key fst k'"
  proof (rule map_sorted_distinct_set_unique [where f = fst])
    show "inj_on fst (set (sort_key fst k) \<union> set (sort_key fst k'))"
      using inj s by simp
    show "distinct (map fst (sort_key fst k))"
      using assms(1) by (simp add: distinct_map)
    show "distinct (map fst (sort_key fst k'))"
      using assms(2) by (simp add: distinct_map)
    show "set (sort_key fst k) = set (sort_key fst k')"
      using s by simp
  qed simp_all
qed

subsection \<open>Ordered failover\<close>

text \<open>
  Claim C1, as stated, fails: the first upstream answers with status 200 and declares
  JSON, its body does not parse, and the loop goes on: the second upstream is contacted
  and its payload is returned.
\<close>

theorem fetch_first_200_counterexample:
  "client_get bad_json_env 0 ''https://a.example/api/blocks/tip/height''
     = Responds (http_response 200 ''application/json'' ''<html>maintenance</html>'')
   \<and> fst (fetch_from_upstreams bad_json_env ''/blocks/tip/height'' (initial_state 1000))
     = Inr (PStr ''800000'')
   \<and> calls (snd (fetch_from_upstreams bad_json_env ''/blocks/tip/height'' (initial_state 1000)))
     = [''https://a.example/api/blocks/tip/height'', ''https://b.example/api/blocks/tip/height'']"
  by (simp add: demo_defs run_defs)

text \<open>
  Claim C1, amended: \<open>_fetch_from_upstreams\<close> tries the upstreams in list order and
  returns the payload of the first one that answers with status 200 and, where the
  declared content type contains \<open>application/json\<close>, has a body that parses: the
  parsed JSON in that case, the text of the body unchanged otherwise. The upstreams
  contacted are exactly those up to and including that one, in order; no later one is.
\<close>

theorem fetch_first_usable:
  assumes "i < length (UPSTREAMS e)"
    and "\<forall>j<i. payload_of e (client_get e (length (calls s) + j) (UPSTREAMS e ! j @ path)) = None"
    and "payload_of e (client_get e (length (calls s) + i) (UPSTREAMS e ! i @ path)) = Some p"
  shows "fst (fetch_from_upstreams e path s) = Inr p \<and>
         calls (snd (fetch_from_upstreams e path s))
           = calls s @ map (\<lambda>base. base @ path) (take (Suc i) (UPSTREAMS e))"
  unfolding fetch_from_upstreams_def using assms by (rule fetch_loop_first_usable)

text \<open>
  The amended claim on the four example upstreams: the first two fail, the payload of
  the third is returned, the fourth is never contacted.
\<close>

theorem fetch_first_usable_witness:
  "2 < length (UPSTREAMS demo_env) \<and>
   payload_of demo_env (client_get demo_env 0 (UPSTREAMS demo_env ! 0 @ ''/blocks/tip/height''))
     = None \<and>
   payload_of demo_env (client_get demo_env 1 (UPSTREAMS demo_env ! 1 @ ''/blocks/tip/height''))
     = None \<and>
   payload_of demo_env (client_get demo_env 2 (UPSTREAMS demo_env ! 2 @ ''/blocks/tip/height''))
     = Some (PDict [(''height'', PInt 800000)]) \<and>
   fst (fetch_from_upstreams demo_env ''/blocks/tip/height'' (initial_state 1000))
     = Inr (PDict [(''height'', PInt 800000)]) \<and>
   calls (snd (fetch_from_upstreams demo_env ''/blocks/tip/height'' (initial_state 1000)))
     = [''https://a.example/api/blocks/tip/height'', ''https://b.example/api/blocks/tip/height'',
        ''https://c.example/api/blocks/tip/height'']"
proof -
  let ?s = "initial_state 1000" and ?p = "''/blocks/tip/height''"
  have i: "2 < length (UPSTREAMS demo_env)"
    by (simp add: demo_defs)
  have p0: "payload_of demo_env (client_get demo_env 0 (UPSTREAMS demo_env ! 0 @ ?p)) = None"
    by (simp add: demo_defs payload_of_def)
  have p1: "payload_of demo_env (client_get demo_env 1 (UPSTREAMS demo_env ! 1 @ ?p)) = None"
    by (simp add: demo_defs payload_of_def)
  have before: "\<forall>j<2. payload_of demo_env
      (client_get demo_env (length (calls ?s) + j) (UPSTREAMS demo_env ! j @ ?p)) = None"
    using p0 p1 by (simp add: initial_state_def less_Suc_eq numeral_2_eq_2)
  have p2: "payload_of demo_env (client_get demo_env 2 (UPSTREAMS demo_env ! 2 @ ?p))
      = Some (PDict [(''height'', PInt 800000)])"
    by (simp add: demo_defs payload_of_def sublist_code(3))
  have here: "payload_of demo_env
      (client_get demo_env (length (calls ?s) + 2) (UPSTREAMS demo_env ! 2 @ ?p))
      = Some (PDict [(''height'', PInt 800000)])"
    by (simp add: demo_defs payload_of_def sublist_code(3))
  from fetch_first_usable [OF i before here]
  have "fst (fetch_from_upstreams demo_env ?p ?s) = Inr (PDict [(''height'', PInt 800000)]) \<and>
    calls (snd (fetch_from_upstreams demo_env ?p ?s))
      = [''https://a.example/api/blocks/tip/height'', ''https://b.example/api/blocks/tip/height'',
         ''https://c.example/api/blocks/tip/height'']"
    by (simp add: demo_defs numeral_3_eq_3)
  with i p0 p1 p2 show ?thesis by blast
qed

subsection \<open>Exhaustion\<close>

text \<open>
  Claim C2: if every configured upstream yields a transport failure or a status other
  than 200, \<open>_fetch_from_upstreams\<close> raises \<open>HTTPException(status_code=502)\<close>
  after having tried each upstream once, in order, and returns no payload; the cache is
  not touched. With an empty upstream list the loop body never runs: the exception is
  raised at once and the state is unchanged.
\<close>

theorem all_upstreams_exhausted:
  "((\<forall>j<length (UPSTREAMS e).
        failed (client_get e (length (calls s) + j) (UPSTREAMS e ! j @ path))) \<longrightarrow>
      fst (fetch_from_upstreams e path s) = Inl (HTTPException 502 ''All upstreams failed'') \<and>
      calls (snd (fetch_from_upstreams e path s))
        = calls s @ map (\<lambda>base. base @ path) (UPSTREAMS e) \<and>
      cache (snd (fetch_from_upstreams e path s)) = cache s)
   \<and> (UPSTREAMS e = [] \<longrightarrow>
        fetch_from_upstreams e path s = (Inl (HTTPException 502 ''All upstreams failed''), s))"
proof (intro conjI impI)
  assume a: "\<forall>j<length (UPSTREAMS e).
        failed (client_get e (length (calls s) + j) (UPSTREAMS e ! j @ path))"
  then have u: "\<forall>j<length (UPSTREAMS e).
        payload_of e (client_get e (length (calls s) + j) (UPSTREAMS e ! j @ path)) = None"
    by (simp add: failed_payload_of)
  from fetch_loop_all_unusable [OF u]
  show "fst (fetch_from_upstreams e path s) = Inl (HTTPException 502 ''All upstreams failed'')"
    and "calls (snd (fetch_from_upstreams e path s))
        = calls s @ map (\<lambda>base. base @ path) (UPSTREAMS e)"
    by (simp_all add: fetch_from_upstreams_def)
  show "cache (snd (fetch_from_upstreams e path s)) = cache s"
    by (simp add: fetch_from_upstreams_def fetch_loop_cache)
next
  assume "UPSTREAMS e = []"
  then show "fetch_from_upstreams e path s = (Inl (HTTPException 502 ''All upstreams failed''), s)"
    by (simp add: fetch_from_upstreams_def)
qed

text \<open>
  Claim C2 on the two upstreams that are down, and on the same configuration with the
  upstream list emptied.
\<close>

theorem all_upstreams_exhausted_witness:
  "failed (client_get down_env 0 (UPSTREAMS down_env ! 0 @ ''/tx/ab12'')) \<and>
   failed (client_get down_env 1 (UPSTREAMS down_env ! 1 @ ''/tx/ab12'')) \<and>
   fst (fetch_from_upstreams down_env ''/tx/ab12'' (initial_state 1000))
     = Inl (HTTPException 502 ''All upstreams failed'') \<and>
   calls (snd (fetch_from_upstreams down_env ''/tx/ab12'' (initial_state 1000)))
     = [''https://a.example/api/tx/ab12'', ''https://b.example/api/tx/ab12''] \<and>
   cache (snd (fetch_from_upstreams down_env ''/tx/ab12'' (initial_state 1000)))
     = cache (initial_state 1000) \<and>
   UPSTREAMS (down_env\<lparr>UPSTREAMS := []\<rparr>) = [] \<and>
   fetch_from_upstreams (down_env\<lparr>UPSTREAMS := []\<rparr>) ''/tx/ab12'' (initial_state 1000)
     = (Inl (HTTPException 502 ''All upstreams failed''), initial_state 1000)"
proof -
  let ?s = "initial_state 1000" and ?p = "''/tx/ab12''"
  have f0: "failed (client_get down_env 0 (UPSTREAMS down_env ! 0 @ ?p))"
    by (simp add: demo_defs failed_def)
  have f1: "failed (client_get down_env 1 (UPSTREAMS down_env ! 1 @ ?p))"
    by (simp add: demo_defs failed_def)
  have down: "\<forall>j<length (UPSTREAMS down_env).
      failed (client_get down_env (length (calls ?s) + j) (UPSTREAMS down_env ! j @ ?p))"
    using f0 f1 by (simp add: down_env_def initial_state_def less_Suc_eq)
  have none: "UPSTREAMS (down_env\<lparr>UPSTREAMS := []\<rparr>) = []"
    by simp
  from all_upstreams_exhausted [of down_env ?s ?p] down
    all_upstreams_exhausted [of "down_env\<lparr>UPSTREAMS := []\<rparr>" ?s ?p] none
  have "fst (fetch_from_upstreams down_env ?p ?s) = Inl (HTTPException 502 ''All upstreams failed'')
    \<and> calls (snd (fetch_from_upstreams down_env ?p ?s))
        = [''https://a.example/api/tx/ab12'', ''https://b.example/api/tx/ab12'']
    \<and> cache (snd (fetch_from_upstreams down_env ?p ?s)) = cache ?s
    \<and> fetch_from_upstreams (down_env\<lparr>UPSTREAMS := []\<rparr>) ?p ?s
        = (Inl (HTTPException 502 ''All upstreams failed''), ?s)"
    by (simp add: demo_defs)
  with f0 f1 none show ?thesis by blast
qed

subsection \<open>A 200 response whose JSON body does not parse\<close>

text \<open>
  Claim C10: when an upstream answers with status 200 and a content type that declares
  JSON, and the body does not parse, the exception of \<open>resp.json()\<close> is caught: the
  iteration has made its one outbound call, returns nothing and logs one warning
  naming the URL. The loop then goes on: the next upstream in the list is the next URL
  called, and when its response is usable its payload is what the loop returns. When
  there is no next upstream the loop ends in \<open>HTTPException(status_code=502)\<close>; in no
  case does the caller see a parse error.
\<close>

theorem unparsable_json_is_skipped:
  assumes "client_get e (length (calls s)) (base @ path) = Responds resp"
    and "status_code resp = 200"
    and "headers resp ''content-type'' = Some ct"
    and "sublist ''application/json'' ct"
    and "json_loads e (resp_text resp) = None"
  shows "\<exists>s'. try_upstream e path base s = (None, s') \<and>
              warnings s' = warnings s @ [(base @ path, JSONDecodeError)] \<and>
              calls s' = calls s @ [base @ path] \<and>
              fetch_loop e path (base # rest) s = fetch_loop e path rest s' \<and>
              fst (fetch_loop e path rest s') \<noteq> Inl JSONDecodeError \<and>
              fetch_loop e path [base] s = (Inl (HTTPException 502 ''All upstreams failed''), s') \<and>
              (\<exists>more. calls (snd (fetch_loop e path (base # b # bs) s))
                        = calls s @ [base @ path, b @ path] @ more) \<and>
              (payload_of e (client_get e (Suc (length (calls s))) (b @ path)) = Some p \<longrightarrow>
                 fst (fetch_loop e path (base # b # bs) s) = Inr p \<and>
                 calls (snd (fetch_loop e path (base # b # bs) s))
                   = calls s @ [base @ path, b @ path])"
proof -
  let ?s' = "log_warning (base @ path) JSONDecodeError
               (snd (http_get e (base @ path) (rate_limit e s)))"
  have t: "try_upstream e path base s = (None, ?s')"
    using assms by (simp add: try_upstream_def http_get_def rate_limit_calls Let_def)
  have w: "warnings ?s' = warnings s @ [(base @ path, JSONDecodeError)]"
    by (simp add: log_warning_def http_get_def rate_limit_def sleep_def Let_def)
  have c: "calls ?s' = calls s @ [base @ path]"
    using try_upstream_calls [of e path base s] t by simp
  have l: "fetch_loop e path (base # rest) s = fetch_loop e path rest ?s'" for rest
    using t by simp
  have n: "fst (fetch_loop e path rest ?s') \<noteq> Inl JSONDecodeError"
    using fetch_loop_error [of e path rest ?s' JSONDecodeError] by auto
  have last: "fetch_loop e path [base] s = (Inl (HTTPException 502 ''All upstreams failed''), ?s')"
    using t by simp
  have nxt: "\<exists>more. calls (snd (fetch_loop e path (base # b # bs) s))
                        = calls s @ [base @ path, b @ path] @ more"
  proof -
    from fetch_loop_calls_Cons [of e path b bs ?s']
    obtain more where "calls (snd (fetch_loop e path (b # bs) ?s')) = calls ?s' @ [b @ path] @ more"
      by blast
    then have "calls (snd (fetch_loop e path (base # b # bs) s))
        = calls s @ [base @ path, b @ path] @ more"
      unfolding l [of "b # bs"] c by simp
    then show ?thesis by blast
  qed
  have usable: "payload_of e (client_get e (Suc (length (calls s))) (b @ path)) = Some p \<longrightarrow>
                 fst (fetch_loop e path (base # b # bs) s) = Inr p \<and>
                 calls (snd (fetch_loop e path (base # b # bs) s))
                   = calls s @ [base @ path, b @ path]"
  proof
    assume a: "payload_of e (client_get e (Suc (length (calls s))) (b @ path)) = Some p"
    obtain r s2 where t2: "try_upstream e path b ?s' = (r, s2)"
      by (cases "try_upstream e path b ?s'")
    have "r = payload_of e (client_get e (length (calls ?s')) (b @ path))"
      using try_upstream_fst [of e path b ?s'] t2 by simp
    with a c have r: "r = Some p" by simp
    have c2: "calls s2 = calls ?s' @ [b @ path]"
      using try_upstream_calls [of e path b ?s'] t2 by simp
    have "fetch_loop e path (b # bs) ?s' = (Inr p, s2)"
      using t2 r by simp
    then have "fetch_loop e path (base # b # bs) s = (Inr p, s2)"
      unfolding l [of "b # bs"] .
    with c c2 show "fst (fetch_loop e path (base # b # bs) s) = Inr p \<and>
                 calls (snd (fetch_loop e path (base # b # bs) s))
                   = calls s @ [base @ path, b @ path]"
      by simp
  qed
  from t w c l [of rest] n last nxt usable show ?thesis by blast
qed

text \<open>
  Claim C10 on the example whose first upstream declares JSON and sends an HTML page:
  the second upstream is called next and its text is returned.
\<close>

theorem unparsable_json_is_skipped_witness:
  "client_get bad_json_env (length (calls (initial_state 1000)))
      (''https://a.example/api'' @ ''/blocks/tip/height'')
     = Responds (http_response 200 ''application/json'' ''<html>maintenance</html>'') \<and>
   status_code (http_response 200 ''application/json'' ''<html>maintenance</html>'') = 200 \<and>
   headers (http_response 200 ''application/json'' ''<html>maintenance</html>'') ''content-type''
     = Some ''application/json'' \<and>
   sublist ''application/json'' ''application/json'' \<and>
   json_loads bad_json_env
      (resp_text (http_response 200 ''application/json'' ''<html>maintenance</html>'')) = None \<and>
   payload_of bad_json_env (client_get bad_json_env (Suc (length (calls (initial_state 1000))))
      (''https://b.example/api'' @ ''/blocks/tip/height'')) = Some (PStr ''800000'') \<and>
   (\<exists>s'. try_upstream bad_json_env ''/blocks/tip/height'' ''https://a.example/api''
            (initial_state 1000) = (None, s') \<and>
         warnings s' = warnings (initial_state 1000)
            @ [(''https://a.example/api'' @ ''/blocks/tip/height'', JSONDecodeError)] \<and>
         calls s' = calls (initial_state 1000)
            @ [''https://a.example/api'' @ ''/blocks/tip/height''] \<and>
         fetch_loop bad_json_env ''/blocks/tip/height'' [''https://a.example/api'']
            (initial_state 1000) = (Inl (HTTPException 502 ''All upstreams failed''), s')) \<and>
   fst (fetch_loop bad_json_env ''/blocks/tip/height''
          (''https://a.example/api'' # ''https://b.example/api'' # []) (initial_state 1000))
     = Inr (PStr ''800000'') \<and>
   calls (snd (fetch_loop bad_json_env ''/blocks/tip/height''
          (''https://a.example/api'' # ''https://b.example/api'' # []) (initial_state 1000)))
     = calls (initial_state 1000)
         @ [''https://a.example/api'' @ ''/blocks/tip/height'',
            ''https://b.example/api'' @ ''/blocks/tip/height'']"
proof -
  let ?r = "http_response 200 ''application/json'' ''<html>maintenance</html>''"
  have h1: "client_get bad_json_env (length (calls (initial_state 1000)))
      (''https://a.example/api'' @ ''/blocks/tip/height'') = Responds ?r"
    by (simp add: demo_defs)
  have h2: "status_code ?r = 200"
    by (simp add: http_response_def)
  have h3: "headers ?r ''content-type'' = Some ''application/json''"
    by (simp add: http_response_def)
  have h4: "sublist ''application/json'' ''application/json''"
    by simp
  have h5: "json_loads bad_json_env (resp_text ?r) = None"
    by (simp add: demo_defs)
  have nxt: "payload_of bad_json_env (client_get bad_json_env
      (Suc (length (calls (initial_state 1000))))
      (''https://b.example/api'' @ ''/blocks/tip/height'')) = Some (PStr ''800000'')"
    by (simp add: demo_defs payload_of_def sublist_code(3))
  note th = unparsable_json_is_skipped [OF h1 h2 h3 h4 h5,
      of "[''https://b.example/api'']" "''https://b.example/api''" "[]" "PStr ''800000''"]
  from th nxt have run: "fst (fetch_loop bad_json_env ''/blocks/tip/height''
          (''https://a.example/api'' # ''https://b.example/api'' # []) (initial_state 1000))
     = Inr (PStr ''800000'') \<and>
   calls (snd (fetch_loop bad_json_env ''/blocks/tip/height''
          (''https://a.example/api'' # ''https://b.example/api'' # []) (initial_state 1000)))
     = calls (initial_state 1000)
         @ [''https://a.example/api'' @ ''/blocks/tip/height'',
            ''https://b.example/api'' @ ''/blocks/tip/height'']"
    by blast
  from th have step: "\<exists>s'. try_upstream bad_json_env ''/blocks/tip/height'' ''https://a.example/api''
            (initial_state 1000) = (None, s') \<and>
         warnings s' = warnings (initial_state 1000)
            @ [(''https://a.example/api'' @ ''/blocks/tip/height'', JSONDecodeError)] \<and>
         calls s' = calls (initial_state 1000)
            @ [''https://a.example/api'' @ ''/blocks/tip/height''] \<and>
         fetch_loop bad_json_env ''/blocks/tip/height'' [''https://a.example/api'']
            (initial_state 1000) = (Inl (HTTPException 502 ''All upstreams failed''), s')"
    by blast
  from h1 h2 h3 h4 h5 nxt step run show ?thesis
    by blast
qed

subsection \<open>The result cache\<close>

text \<open>
  Claim C3: after \<open>store(s, v, t0)\<close> a lookup of \<open>s\<close> at time \<open>t\<close> returns
  \<open>v\<close> when \<open>t - t0 < TTL\<close> and is absent when \<open>t - t0 >= TTL\<close>. This holds
  of the check and the assignment taken alone and of \<open>_get_cached_or_fetch\<close> as a
  whole: with a fresh entry it returns the cached value and leaves the state as it was,
  whatever the fetch would do. A stale entry is treated exactly as an absent one: in
  both cases \<open>_get_cached_or_fetch\<close> continues with the fetch-and-store of lines 127
  to 129, started from the state as it was, the stale entry still in the cache.
\<close>

theorem lookup_after_store:
  "cache_lookup e (cache_store c sg v t0) sg t
     = (if t - t0 < real_of_int (CACHE_TTL e) then Some v else None)
   \<and> (cache s (cache_key name args kwargs) = Some (v, t0) \<and>
        clock s - t0 < real_of_int (CACHE_TTL e) \<longrightarrow>
      get_cached_or_fetch e name pf args kwargs s = (Inr v, s))
   \<and> (cache s (cache_key name args kwargs) = Some (v, t0) \<and>
        \<not> clock s - t0 < real_of_int (CACHE_TTL e) \<longrightarrow>
      cache_lookup e (cache s) (cache_key name args kwargs) (clock s) = None \<and>
      get_cached_or_fetch e name pf args kwargs s
        = fetch_and_store e (cache_key name args kwargs) pf args kwargs s)
   \<and> (cache s (cache_key name args kwargs) = None \<longrightarrow>
      cache_lookup e (cache s) (cache_key name args kwargs) (clock s) = None \<and>
      get_cached_or_fetch e name pf args kwargs s
        = fetch_and_store e (cache_key name args kwargs) pf args kwargs s)
   \<and> get_cached_or_fetch e name pf args kwargs
        (s\<lparr>cache := cache_store (cache s) (cache_key name args kwargs) v t0\<rparr>)
      = (if clock s - t0 < real_of_int (CACHE_TTL e)
         then (Inr v, s\<lparr>cache := cache_store (cache s) (cache_key name args kwargs) v t0\<rparr>)
         else fetch_and_store e (cache_key name args kwargs) pf args kwargs
                (s\<lparr>cache := cache_store (cache s) (cache_key name args kwargs) v t0\<rparr>))"
proof (intro conjI impI)
  show "cache_lookup e (cache_store c sg v t0) sg t
     = (if t - t0 < real_of_int (CACHE_TTL e) then Some v else None)"
    by (rule cache_lookup_store_same)
next
  assume "cache s (cache_key name args kwargs) = Some (v, t0) \<and>
        clock s - t0 < real_of_int (CACHE_TTL e)"
  then have "cache_lookup e (cache s) (cache_key name args kwargs) (clock s) = Some v"
    by (simp add: cache_lookup_def)
  then show "get_cached_or_fetch e name pf args kwargs s = (Inr v, s)"
    by (rule get_cached_or_fetch_hit)
next
  assume a: "cache s (cache_key name args kwargs) = Some (v, t0) \<and>
        \<not> clock s - t0 < real_of_int (CACHE_TTL e)"
  then show l: "cache_lookup e (cache s) (cache_key name args kwargs) (clock s) = None"
    by (simp add: cache_lookup_stale)
  then show "get_cached_or_fetch e name pf args kwargs s
        = fetch_and_store e (cache_key name args kwargs) pf args kwargs s"
    by (rule get_cached_or_fetch_miss)
next
  assume "cache s (cache_key name args kwargs) = None"
  then show l: "cache_lookup e (cache s) (cache_key name args kwargs) (clock s) = None"
    by (rule cache_lookup_absent)
  then show "get_cached_or_fetch e name pf args kwargs s
        = fetch_and_store e (cache_key name args kwargs) pf args kwargs s"
    by (rule get_cached_or_fetch_miss)
next
  let ?k = "cache_key name args kwargs"
  let ?s = "s\<lparr>cache := cache_store (cache s) ?k v t0\<rparr>"
  have lk: "cache_lookup e (cache ?s) ?k (clock ?s)
      = (if clock s - t0 < real_of_int (CACHE_TTL e) then Some v else None)"
    by (simp add: cache_lookup_store_same)
  show "get_cached_or_fetch e name pf args kwargs ?s
      = (if clock s - t0 < real_of_int (CACHE_TTL e) then (Inr v, ?s)
         else fetch_and_store e ?k pf args kwargs ?s)"
  proof (cases "clock s - t0 < real_of_int (CACHE_TTL e)")
    case True
    with lk have "cache_lookup e (cache ?s) ?k (clock ?s) = Some v" by simp
    from get_cached_or_fetch_hit [OF this, of pf] True show ?thesis by simp
  next
    case False
    with lk have "cache_lookup e (cache ?s) ?k (clock ?s) = None" by simp
    from get_cached_or_fetch_miss [OF this, of pf] False show ?thesis by simp
  qed
qed

text \<open>
  Claim C3 on an entry written at time 1000 with a TTL of 30 seconds: present at 1029,
  absent at 1030; at 1029 the resolution returns it although both upstreams are down;
  at 1040 the resolution fails and the stale entry is still in the cache. From the
  empty cache the same fetch runs.
\<close>

theorem lookup_after_store_witness:
  "cache_lookup down_env (cache_store Map.empty (cache_key ''tip_height'' [] [])
      (PStr ''800000'') 1000) (cache_key ''tip_height'' [] []) 1029 = Some (PStr ''800000'') \<and>
   cache_lookup down_env (cache_store Map.empty (cache_key ''tip_height'' [] [])
      (PStr ''800000'') 1000) (cache_key ''tip_height'' [] []) 1030 = None \<and>
   cache (cached_state 1029) (cache_key ''tip_height'' [] []) = Some (PStr ''800000'', 1000) \<and>
   clock (cached_state 1029) - 1000 < real_of_int (CACHE_TTL down_env) \<and>
   get_cached_or_fetch down_env ''tip_height'' (fetch0 down_env ''/blocks/tip/height'')
      [] [] (cached_state 1029) = (Inr (PStr ''800000''), cached_state 1029) \<and>
   get_cached_or_fetch down_env ''tip_height'' (fetch0 down_env ''/blocks/tip/height'') [] []
      ((initial_state 1029)\<lparr>cache := cache_store (cache (initial_state 1029))
          (cache_key ''tip_height'' [] []) (PStr ''800000'') 1000\<rparr>)
     = (Inr (PStr ''800000''),
        (initial_state 1029)\<lparr>cache := cache_store (cache (initial_state 1029))
          (cache_key ''tip_height'' [] []) (PStr ''800000'') 1000\<rparr>) \<and>
   cache (cached_state 1040) (cache_key ''tip_height'' [] []) = Some (PStr ''800000'', 1000) \<and>
   \<not> clock (cached_state 1040) - 1000 < real_of_int (CACHE_TTL down_env) \<and>
   fst (get_cached_or_fetch down_env ''tip_height'' (fetch0 down_env ''/blocks/tip/height'')
          [] [] (cached_state 1040)) = Inl (HTTPException 502 ''All upstreams failed'') \<and>
   cache (snd (get_cached_or_fetch down_env ''tip_height''
          (fetch0 down_env ''/blocks/tip/height'') [] [] (cached_state 1040)))
      (cache_key ''tip_height'' [] []) = Some (PStr ''800000'', 1000) \<and>
   cache (initial_state 1040) (cache_key ''tip_height'' [] []) = None \<and>
   fst (get_cached_or_fetch down_env ''tip_height'' (fetch0 down_env ''/blocks/tip/height'')
          [] [] (initial_state 1040)) = Inl (HTTPException 502 ''All upstreams failed'')"
proof -
  let ?k = "cache_key ''tip_height'' [] []"
  let ?pf = "fetch0 down_env ''/blocks/tip/height''"
  let ?v = "PStr ''800000''"
  let ?st = "(initial_state 1029)\<lparr>cache := cache_store (cache (initial_state 1029)) ?k ?v 1000\<rparr>"
  have stored: "cache (cached_state 1040) ?k = Some (?v, 1000)"
    by (simp add: cached_state_def)
  have stale: "\<not> clock (cached_state 1040) - 1000 < real_of_int (CACHE_TTL down_env)"
    by (simp add: cached_state_def down_env_def)
  have stored': "cache (cached_state 1029) ?k = Some (?v, 1000)"
    by (simp add: cached_state_def)
  have young: "clock (cached_state 1029) - 1000 < real_of_int (CACHE_TTL down_env)"
    by (simp add: cached_state_def down_env_def)
  have young': "clock (initial_state 1029) - 1000 < real_of_int (CACHE_TTL down_env)"
    by (simp add: initial_state_def down_env_def)
  have absent: "cache (initial_state 1040) ?k = None"
    by (simp add: initial_state_def)
  have run1: "fst (fetch_and_store down_env ?k ?pf [] [] (cached_state 1040))
      = Inl (HTTPException 502 ''All upstreams failed'')"
    by (simp add: fetch_and_store_def fetch0_def demo_defs run_defs)
  have run2: "cache (snd (fetch_and_store down_env ?k ?pf [] [] (cached_state 1040))) ?k
      = Some (?v, 1000)"
    by (simp add: fetch_and_store_def fetch0_def demo_defs run_defs)
  have run3: "fst (fetch_and_store down_env ?k ?pf [] [] (initial_state 1040))
      = Inl (HTTPException 502 ''All upstreams failed'')"
    by (simp add: fetch_and_store_def fetch0_def demo_defs run_defs)
  note th1 = lookup_after_store [of down_env Map.empty ?k ?v 1000 1029
      "cached_state 1040" "''tip_height''" "[]" "[]" ?pf]
  note th2 = lookup_after_store [of down_env Map.empty ?k ?v 1000 1030
      "initial_state 1040" "''tip_height''" "[]" "[]" ?pf]
  note th3 = lookup_after_store [of down_env Map.empty ?k ?v 1000 1029
      "cached_state 1029" "''tip_height''" "[]" "[]" ?pf]
  note th4 = lookup_after_store [of down_env Map.empty ?k ?v 1000 1029
      "initial_state 1029" "''tip_height''" "[]" "[]" ?pf]
  from th1 have "cache_lookup down_env (cache_store Map.empty ?k ?v 1000) ?k 1029
      = (if 1029 - 1000 < real_of_int (CACHE_TTL down_env) then Some ?v else None)"
    by (rule conjunct1)
  then have fresh: "cache_lookup down_env (cache_store Map.empty ?k ?v 1000) ?k 1029 = Some ?v"
    by (simp add: down_env_def)
  from th2 have "cache_lookup down_env (cache_store Map.empty ?k ?v 1000) ?k 1030
      = (if 1030 - 1000 < real_of_int (CACHE_TTL down_env) then Some ?v else None)"
    by (rule conjunct1)
  then have gone: "cache_lookup down_env (cache_store Map.empty ?k ?v 1000) ?k 1030 = None"
    by (simp add: down_env_def)
  from th3 stored' young
  have hit: "get_cached_or_fetch down_env ''tip_height'' ?pf [] [] (cached_state 1029)
      = (Inr ?v, cached_state 1029)"
    by blast
  from th4 have "get_cached_or_fetch down_env ''tip_height'' ?pf [] [] ?st
      = (if clock (initial_state 1029) - 1000 < real_of_int (CACHE_TTL down_env)
         then (Inr ?v, ?st) else fetch_and_store down_env ?k ?pf [] [] ?st)"
    by blast
  with young' have hit': "get_cached_or_fetch down_env ''tip_height'' ?pf [] [] ?st = (Inr ?v, ?st)"
    by (simp only: if_True)
  from th1 stored stale
  have g1: "get_cached_or_fetch down_env ''tip_height'' ?pf [] [] (cached_state 1040)
      = fetch_and_store down_env ?k ?pf [] [] (cached_state 1040)"
    by blast
  from th2 absent
  have g2: "get_cached_or_fetch down_env ''tip_height'' ?pf [] [] (initial_state 1040)
      = fetch_and_store down_env ?k ?pf [] [] (initial_state 1040)"
    by blast
  from run1 run2 run3 show ?thesis
    unfolding g1 g2 using fresh gone stored' young hit hit' stored stale absent by blast
qed

text \<open>
  Claim C4: a resolution that ends in a failure leaves the cache exactly as it was
  before it began: nothing is written for the requested signature and no entry, stale
  or fresh, is changed. The only failure a resolution of an endpoint's closure called
  as the endpoint calls it can end in is the exhaustion of the upstreams.
\<close>

theorem failures_never_cached:
  assumes "pf = fetch0 e path \<or> pf = fetch1 e p pre post"
    and "fst (get_cached_or_fetch e name pf args kwargs s) = Inl exc"
  shows "cache (snd (get_cached_or_fetch e name pf args kwargs s)) = cache s"
proof -
  have pc: "cache (snd (pf args kwargs s)) = cache s"
    using assms(1) by (auto simp: fetch0_cache fetch1_cache)
  obtain r s1 where r: "pf args kwargs s = (r, s1)"
    by (cases "pf args kwargs s")
  with pc have c1: "cache s1 = cache s" by simp
  show ?thesis
  proof (cases "cache_lookup e (cache s) (cache_key name args kwargs) (clock s)")
    case None
    with r c1 assms(2) show ?thesis
      by (cases r) (simp_all add: get_cached_or_fetch_def Let_def)
  next
    case (Some v)
    then show ?thesis by (simp add: get_cached_or_fetch_def Let_def)
  qed
qed

text \<open>
  Claim C4 on the tip height with both upstreams down and a stale entry in the cache.
\<close>

theorem failures_never_cached_witness:
  "fst (get_cached_or_fetch down_env ''tip_height'' (fetch0 down_env ''/blocks/tip/height'')
          [] [] (cached_state 1040)) = Inl (HTTPException 502 ''All upstreams failed'') \<and>
   cache (snd (get_cached_or_fetch down_env ''tip_height''
          (fetch0 down_env ''/blocks/tip/height'') [] [] (cached_state 1040)))
     = cache (cached_state 1040)"
proof -
  let ?pf = "fetch0 down_env ''/blocks/tip/height''"
  have pf: "?pf = fetch0 down_env ''/blocks/tip/height'' \<or> ?pf = fetch1 down_env [] [] []"
    by simp
  have fails: "fst (get_cached_or_fetch down_env ''tip_height'' ?pf [] [] (cached_state 1040))
      = Inl (HTTPException 502 ''All upstreams failed'')"
    by (simp add: cache_defs demo_defs run_defs)
  from failures_never_cached [OF pf fails] fails show ?thesis
    by simp
qed



subsection \<open>The timestamp of a cache entry\<close>

text \<open>
  Claim C6, as stated, fails: the timestamp stored with a fetched result is the
  \<open>now\<close> of line 120, read before the fetch. Here the fetch takes three quarters
  of a second (three outbound calls of a quarter each): the resolution starts at 1000
  and ends at 1000.75, and the entry carries 1000, which is earlier than the moment the
  fetch completed.
\<close>

theorem stored_timestamp_counterexample:
  "fst (get_block demo_env ''00ab'' (initial_state 1000))
     = Inr (PDict [(''height'', PInt 800000)]) \<and>
   cache (snd (get_block demo_env ''00ab'' (initial_state 1000))) (cache_key ''block'' [''00ab''] [])
     = Some (PDict [(''height'', PInt 800000)], 1000) \<and>
   clock (snd (get_block demo_env ''00ab'' (initial_state 1000))) = 1000 + 3 / 4 \<and>
   (1000 :: real) < 1000 + 3 / 4"
  by (simp add: get_block_def cache_defs demo_defs run_defs)

text \<open>
  Claim C6, amended: on a cache miss or stale hit that fetches successfully, the
  result is stored paired with the timestamp read at the start of the resolution,
  before the fetch began, and nothing else in the state the fetch left is changed. When
  no outbound call takes negative time, that timestamp is not later than the moment
  the fetch completed.
\<close>

theorem stored_timestamp_is_start_time:
  assumes "cache_lookup e (cache s) (cache_key name args kwargs) (clock s) = None"
    and "pf = fetch0 e path \<or> pf = fetch1 e p pre post"
    and "pf args kwargs s = (Inr v, s1)"
    and "\<forall>n. 0 \<le> client_time e n"
  shows "get_cached_or_fetch e name pf args kwargs s
           = (Inr v, s1\<lparr>cache := (cache s1)(cache_key name args kwargs \<mapsto> (v, clock s))\<rparr>)
         \<and> clock s \<le> clock s1"
proof
  show "get_cached_or_fetch e name pf args kwargs s
           = (Inr v, s1\<lparr>cache := (cache s1)(cache_key name args kwargs \<mapsto> (v, clock s))\<rparr>)"
    using assms(1,3) by (simp add: get_cached_or_fetch_def cache_store_def Let_def)
  have "clock s \<le> clock (snd (pf args kwargs s))"
    using assms(2,4) by (auto simp: fetch0_clock fetch1_clock)
  with assms(3) show "clock s \<le> clock s1" by simp
qed

text \<open>The amended claim on the resolution of one block from the empty cache.\<close>

theorem stored_timestamp_is_start_time_witness:
  "cache_lookup demo_env (cache (initial_state 1000)) (cache_key ''block'' [''00ab''] [])
      (clock (initial_state 1000)) = None \<and>
   (\<forall>n. 0 \<le> client_time demo_env n) \<and>
   fst (fetch1 demo_env ''bh'' ''/block/'' '''' [''00ab''] [] (initial_state 1000))
     = Inr (PDict [(''height'', PInt 800000)]) \<and>
   get_block demo_env ''00ab'' (initial_state 1000)
     = (Inr (PDict [(''height'', PInt 800000)]),
        (snd (fetch1 demo_env ''bh'' ''/block/'' '''' [''00ab''] [] (initial_state 1000)))
          \<lparr>cache := (cache (snd (fetch1 demo_env ''bh'' ''/block/'' '''' [''00ab''] []
                                  (initial_state 1000))))
              (cache_key ''block'' [''00ab''] [] \<mapsto>
                 (PDict [(''height'', PInt 800000)], clock (initial_state 1000)))\<rparr>) \<and>
   clock (initial_state 1000)
     \<le> clock (snd (fetch1 demo_env ''bh'' ''/block/'' '''' [''00ab''] [] (initial_state 1000)))"
proof -
  let ?v = "PDict [(''height'', PInt 800000)]"
  let ?pf = "fetch1 demo_env ''bh'' ''/block/'' ''''"
  let ?s = "initial_state 1000"
  let ?s1 = "snd (?pf [''00ab''] [] ?s)"
  have miss: "cache_lookup demo_env (cache ?s) (cache_key ''block'' [''00ab''] []) (clock ?s) = None"
    by (simp add: cache_lookup_def initial_state_def)
  have closure: "?pf = fetch0 demo_env [] \<or> ?pf = fetch1 demo_env ''bh'' ''/block/'' ''''"
    by simp
  have nonneg: "\<forall>n. 0 \<le> client_time demo_env n"
    by (simp add: demo_env_def)
  have first: "fst (?pf [''00ab''] [] ?s) = Inr ?v"
    by (simp add: fetch1_def demo_defs run_defs)
  then have run: "?pf [''00ab''] [] ?s = (Inr ?v, ?s1)"
    by (simp only: prod_eq_iff fst_conv snd_conv simp_thms)
  note th = stored_timestamp_is_start_time [OF miss closure run nonneg]
  from th have stored: "get_block demo_env ''00ab'' ?s
      = (Inr ?v, ?s1\<lparr>cache := (cache ?s1)(cache_key ''block'' [''00ab''] [] \<mapsto> (?v, clock ?s))\<rparr>)"
    unfolding get_block_def by (rule conjunct1)
  from th have later: "clock ?s \<le> clock ?s1"
    by (rule conjunct2)
  from miss nonneg first stored later show ?thesis
    by blast
qed

subsection \<open>Integer coercion of the tip height\<close>

text \<open>
  What \<open>get_tip_height\<close> does with the payload the resolution returned: the integer
  when \<open>int(data)\<close> succeeds, the payload itself when \<open>int(data)\<close> raises
  \<open>ValueError\<close> or \<open>TypeError\<close>, and the exception when it raises
  \<open>OverflowError\<close>, which the \<open>except\<close> clause does not name.
\<close>

lemma tip_height_coerced:
  "get_cached_or_fetch e ''tip_height'' (fetch0 e ''/blocks/tip/height'') [] [] s = (Inr data, s1)
   \<Longrightarrow> py_int (int_max_str_digits e) data = Inr n
   \<Longrightarrow> get_tip_height e s = (Inr (PInt n), s1)"
  by (simp add: get_tip_height_def)

lemma tip_height_fallback:
  "get_cached_or_fetch e ''tip_height'' (fetch0 e ''/blocks/tip/height'') [] [] s = (Inr data, s1)
   \<Longrightarrow> py_int (int_max_str_digits e) data = Inl exc
   \<Longrightarrow> exc = ValueError \<or> exc = TypeError
   \<Longrightarrow> get_tip_height e s = (Inr data, s1)"
  by (auto simp: get_tip_height_def)

lemma tip_height_overflow:
  "get_cached_or_fetch e ''tip_height'' (fetch0 e ''/blocks/tip/height'') [] [] s = (Inr data, s1)
   \<Longrightarrow> py_int (int_max_str_digits e) data = Inl OverflowError
   \<Longrightarrow> get_tip_height e s = (Inl OverflowError, s1)"
  by (simp add: get_tip_height_def)

lemma py_int_overflow_iff:
  "py_int m data = Inl OverflowError \<longleftrightarrow> data = PFloat PosInf \<or> data = PFloat NegInf"
  by (cases "(m, data)" rule: py_int.cases) (auto split: option.splits)

lemma tip_height_text_800000:
  "fst (get_tip_height (single_env ''text/plain'' ''800000'') (initial_state 1000))
     = Inr (PInt 800000)"
  by (simp add: get_tip_height_def cache_defs demo_defs run_defs int_defs)

lemma tip_height_error_page:
  "fst (get_tip_height (single_env ''text/html'' ''<html>Bad Gateway</html>'') (initial_state 1000))
     = Inr (PStr ''<html>Bad Gateway</html>'')"
  by (simp add: get_tip_height_def cache_defs demo_defs run_defs int_defs)

text \<open>
  Claim C8 holds for every payload but the two float infinities, on which the code
  departs from it: the upstream answers 200 with content type \<open>application/json\<close>
  and the body \<open>Infinity\<close>, \<open>resp.json()\<close> gives the float infinity,
  \<open>int(data)\<close> raises \<open>OverflowError\<close>, and the endpoint raises it instead of
  returning the payload in its original form.
\<close>

theorem tip_height_overflow_escapes:
  "fst (get_tip_height (single_env ''application/json'' ''Infinity'') (initial_state 1000))
     = Inl OverflowError"
  by (simp add: get_tip_height_def cache_defs demo_defs run_defs)

subsection \<open>Request signatures\<close>

text \<open>
  Claim C9: two request signatures are equal if and only if their operation names,
  their positional arguments and their named arguments in sorted-by-key order are
  equal; for the keyword dicts of two calls that is: the same items, in whatever order.
  Storing a value under one signature leaves the lookup of every other signature as
  it was.
\<close>

theorem signatures_do_not_collide:
  "(cache_key n a k = cache_key n' a' k' \<longleftrightarrow>
      n = n' \<and> a = a' \<and> sort_key fst k = sort_key fst k')
   \<and> (distinct (map fst k) \<and> distinct (map fst k') \<longrightarrow>
       (cache_key n a k = cache_key n' a' k' \<longleftrightarrow> n = n' \<and> a = a' \<and> set k = set k'))
   \<and> (sg \<noteq> sg' \<longrightarrow>
        cache_lookup e (cache_store c sg v t0) sg' t = cache_lookup e c sg' t)"
proof (intro conjI impI)
  show "cache_key n a k = cache_key n' a' k' \<longleftrightarrow>
      n = n' \<and> a = a' \<and> sort_key fst k = sort_key fst k'"
    by (simp add: cache_key_def)
next
  assume "distinct (map fst k) \<and> distinct (map fst k')"
  then have "sort_key fst k = sort_key fst k' \<longleftrightarrow> set k = set k'"
    by (simp add: sort_key_dict_unique)
  then show "cache_key n a k = cache_key n' a' k' \<longleftrightarrow> n = n' \<and> a = a' \<and> set k = set k'"
    by (simp add: cache_key_def)
next
  assume "sg \<noteq> sg'"
  then show "cache_lookup e (cache_store c sg v t0) sg' t = cache_lookup e c sg' t"
    by (simp add: cache_lookup_def cache_store_def)
qed

text \<open>
  Claim C9 on the signatures of a block and of a transaction with the same argument,
  and on two orders of the same two keyword arguments.
\<close>

theorem signatures_do_not_collide_witness:
  "distinct (map fst [(''b'', ''1''), (''a'', ''2'')]) \<and>
   distinct (map fst [(''a'', ''2''), (''b'', ''1'')]) \<and>
   cache_key ''utxo'' [''addr1''] [(''b'', ''1''), (''a'', ''2'')]
     = cache_key ''utxo'' [''addr1''] [(''a'', ''2''), (''b'', ''1'')] \<and>
   cache_key ''block'' [''00ab''] [] \<noteq> cache_key ''tx'' [''00ab''] [] \<and>
   cache_lookup demo_env
      (cache_store (cache (cached_state 1010)) (cache_key ''block'' [''00ab''] [])
         (PStr ''x'') 1005)
      (cache_key ''tip_height'' [] []) 1010
     = Some (PStr ''800000'') \<and>
   cache_key ''block'' [''00ab''] [] \<noteq> cache_key ''tip_height'' [] []"
proof -
  let ?k = "[(''b'', ''1''), (''a'', ''2'')]" and ?k' = "[(''a'', ''2''), (''b'', ''1'')]"
  have d: "distinct (map fst ?k)" and d': "distinct (map fst ?k')"
    by simp_all
  have same: "set ?k = set ?k'"
    by auto
  have ne: "cache_key ''block'' [''00ab''] [] \<noteq> cache_key ''tx'' [''00ab''] []"
    by (simp add: cache_key_def)
  have ne': "cache_key ''block'' [''00ab''] [] \<noteq> cache_key ''tip_height'' [] []"
    by (simp add: cache_key_def)
  have before: "cache_lookup demo_env (cache (cached_state 1010)) (cache_key ''tip_height'' [] []) 1010
      = Some (PStr ''800000'')"
    by (simp add: cache_lookup_def cached_state_def demo_env_def)
  note th1 = signatures_do_not_collide [of "''utxo''" "[''addr1'']" ?k "''utxo''" "[''addr1'']" ?k'
      "cache_key ''block'' [''00ab''] []" "cache_key ''tip_height'' [] []" demo_env
      "cache (cached_state 1010)" "PStr ''x''" 1005 1010]
  from th1 d d' same
  have eq: "cache_key ''utxo'' [''addr1''] ?k = cache_key ''utxo'' [''addr1''] ?k'"
    by blast
  from th1 ne'
  have "cache_lookup demo_env
      (cache_store (cache (cached_state 1010)) (cache_key ''block'' [''00ab''] []) (PStr ''x'') 1005)
      (cache_key ''tip_height'' [] []) 1010
     = cache_lookup demo_env (cache (cached_state 1010)) (cache_key ''tip_height'' [] []) 1010"
    by blast
  from this before have kept: "cache_lookup demo_env
      (cache_store (cache (cached_state 1010)) (cache_key ''block'' [''00ab''] []) (PStr ''x'') 1005)
      (cache_key ''tip_height'' [] []) 1010 = Some (PStr ''800000'')"
    by (rule trans)
  from d d' eq ne kept ne' show ?thesis
    by blast
qed

end
